theory Spec2Isabelle
  imports Complex_Main "HOL-Library.Word"
begin

section \<open>Strings\<close>

text \<open>
  A Go string is a sequence of bytes and \<open>==\<close> on strings compares them byte for byte.
  A \<^typ>\<open>string\<close> is a list of 8-bit characters and \<open>=\<close> on it is the same comparison.
\<close>

definition isUpperASCII :: "char \<Rightarrow> bool" where
  "isUpperASCII c = (let n = (of_char c :: nat) in 65 \<le> n \<and> n \<le> 90)"

text \<open>
  \<open>strings.ToLower\<close> on the ASCII range: the letters \<open>A\<close> to \<open>Z\<close> get bit 5 set, every other
  byte stays. Bytes outside ASCII are left alone here (Go maps the upper-case runes of
  other scripts too).
\<close>

fun toLowerByte :: "char \<Rightarrow> char" where
  "toLowerByte (Char b0 b1 b2 b3 b4 b5 b6 b7) =
     (if isUpperASCII (Char b0 b1 b2 b3 b4 b5 b6 b7)
      then Char b0 b1 b2 b3 b4 True b6 b7
      else Char b0 b1 b2 b3 b4 b5 b6 b7)"

definition ToLower :: "string \<Rightarrow> string" where
  "ToLower s = map toLowerByte s"

fun HasPrefix :: "string \<Rightarrow> string \<Rightarrow> bool" where
  "HasPrefix s [] = True"
| "HasPrefix [] (p # ps) = False"
| "HasPrefix (c # cs) (p # ps) = (c = p \<and> HasPrefix cs ps)"

text \<open>\<open>strings.Contains(s, substr)\<close>: \<open>substr\<close> occurs in \<open>s\<close> at some offset.\<close>

fun Contains :: "string \<Rightarrow> string \<Rightarrow> bool" where
  "Contains [] substr = HasPrefix [] substr"
| "Contains (c # cs) substr = (HasPrefix (c # cs) substr \<or> Contains cs substr)"


section \<open>gRPC metadata, contexts and status errors\<close>

text \<open>
  \<open>metadata.MD\<close> is \<open>map[string][]string\<close>. The keys are held in lower case, as
  \<open>metadata.New\<close>, \<open>metadata.Pairs\<close> and the transport store them.
\<close>

type_synonym MD = "string \<rightharpoonup> string list"

text \<open>\<open>md.Get(k)\<close> lowers the key and returns the values stored under it, \<open>nil\<close> if none.\<close>

definition MD_Get :: "MD \<Rightarrow> string \<Rightarrow> string list" where
  "MD_Get md k = (case md (ToLower k) of None \<Rightarrow> [] | Some vs \<Rightarrow> vs)"

text \<open>
  \<open>metadata.New(m)\<close>: one single-valued entry per pair of \<open>m\<close>, under the lowered key.
  The Go map is given here as the list of its pairs.
\<close>

definition MD_New :: "(string \<times> string) list \<Rightarrow> MD" where
  "MD_New m = map_of (map (\<lambda>(k, val). (ToLower k, [val])) m)"

text \<open>
  The part of a \<open>context.Context\<close> that the \<open>metadata\<close> package reads and writes: the
  incoming metadata of a server call, and the outgoing metadata of a client call, which is a
  \<open>rawMD\<close>: the map set by \<open>NewOutgoingContext\<close> and the key-value lists appended later by
  \<open>AppendToOutgoingContext\<close>. Everything else a context carries (deadline, cancellation,
  other values) is the field \<open>ctxValues\<close>.
\<close>

record rawMD =
  md :: MD
  added :: "string list list"

record 'v Context =
  mdIncoming :: "MD option"
  mdOutgoing :: "rawMD option"
  ctxValues :: 'v

definition FromIncomingContext :: "'v Context \<Rightarrow> MD option" where
  "FromIncomingContext ctx = mdIncoming ctx"

text \<open>
  \<open>metadata.NewOutgoingContext(ctx, md)\<close> stores \<open>rawMD{md: md}\<close> under the outgoing key:
  the map and the appended pairs that were there before are both replaced.
\<close>

definition NewOutgoingContext :: "'v Context \<Rightarrow> MD \<Rightarrow> 'v Context" where
  "NewOutgoingContext ctx m = ctx\<lparr>mdOutgoing := Some \<lparr>md = m, added = []\<rparr>\<rparr>"

text \<open>
  \<open>metadata.FromOutgoingContext(ctx)\<close>: the outgoing metadata as one map, the appended
  pairs added behind the values of the map, each under its lowered key.
\<close>

fun appendPairs :: "MD \<Rightarrow> string list \<Rightarrow> MD" where
  "appendPairs out (k # v # rest) =
     appendPairs (out(ToLower k \<mapsto> (case out (ToLower k) of None \<Rightarrow> [] | Some vs \<Rightarrow> vs) @ [v])) rest"
| "appendPairs out [k] = out"
| "appendPairs out [] = out"

definition FromOutgoingContext :: "'v Context \<Rightarrow> MD option" where
  "FromOutgoingContext ctx =
     (case mdOutgoing ctx of
        None \<Rightarrow> None
      | Some raw \<Rightarrow> Some (fold (\<lambda>kv out. appendPairs out kv) (added raw) (md raw)))"

datatype Code =
    OK | Canceled | Unknown | InvalidArgument | DeadlineExceeded | NotFound
  | AlreadyExists | PermissionDenied | ResourceExhausted | FailedPrecondition
  | Aborted | OutOfRange | Unimplemented | Internal | Unavailable | DataLoss
  | Unauthenticated

text \<open>\<open>status.Error(c, msg)\<close>: an error carrying a status code and a message.\<close>

datatype error = Status Code string

text \<open>
  The gRPC client checks the outgoing metadata of a call before it sends anything
  (\<open>imetadata.Validate\<close> for the map, \<open>imetadata.ValidatePair\<close> for the appended pairs). A
  key must not be empty; a key that starts with a colon passes; otherwise a key has only
  the characters \<open>0-9 a-z - _ .\<close>; the values under a key that ends in \<open>-bin\<close> pass;
  every other value must have all its bytes in the printable ASCII range 0x20 to 0x7E.
\<close>

definition hasNotPrintable :: "string \<Rightarrow> bool" where
  "hasNotPrintable msg = list_ex (\<lambda>c. (of_char c :: nat) < 32 \<or> 126 < (of_char c :: nat)) msg"

definition isHeaderKeyChar :: "char \<Rightarrow> bool" where
  "isHeaderKeyChar r =
     (let n = (of_char r :: nat)
      in (97 \<le> n \<and> n \<le> 122) \<or> (48 \<le> n \<and> n \<le> 57) \<or> n = 46 \<or> n = 45 \<or> n = 95)"

definition HasSuffix :: "string \<Rightarrow> string \<Rightarrow> bool" where
  "HasSuffix s suffix = HasPrefix (rev s) (rev suffix)"

text \<open>\<open>ValidatePair(key, vals...)\<close>: true when it returns no error.\<close>

definition ValidatePair :: "string \<Rightarrow> string list \<Rightarrow> bool" where
  "ValidatePair key vals =
     (if key = [] then False
      else if hd key = CHR '':'' then True
      else if \<not> list_all isHeaderKeyChar key then False
      else if HasSuffix key ''-bin'' then True
      else \<not> list_ex hasNotPrintable vals)"

text \<open>
  \<open>Validate(md)\<close> ranges over the entries of the map; a map has no list of its keys here,
  so the loop is a statement about every entry.
\<close>

definition Validate :: "MD \<Rightarrow> bool" where
  "Validate m = (\<forall>key vals. m key = Some vals \<longrightarrow> ValidatePair key vals)"

text \<open>The check of one appended list \<open>k1, v1, k2, v2, ...\<close>, pair by pair.\<close>

fun validAdded :: "string list \<Rightarrow> bool" where
  "validAdded (k # v # rest) = (ValidatePair k [v] \<and> validAdded rest)"
| "validAdded [k] = True"
| "validAdded [] = True"

text \<open>
  The transport between client and server. When the outgoing metadata of the client's
  context fails the check, the call ends on the client with the status code \<open>Internal\<close>
  and nothing reaches the server (the message of that status, which names one offending
  key, is left out). Otherwise the server's context of the call carries, as incoming
  metadata, the outgoing metadata of the client's context, next to the headers the
  transport sets itself (\<open>content-type\<close>, \<open>user-agent\<close>, \<open>:authority\<close>), which never use a key
  the client set.
\<close>

definition received :: "MD \<Rightarrow> 'v Context \<Rightarrow> Code + 'v Context" where
  "received transportHeaders ctx =
     (case mdOutgoing ctx of
        None \<Rightarrow>
          Inr \<lparr>mdIncoming = Some transportHeaders, mdOutgoing = None, ctxValues = ctxValues ctx\<rparr>
      | Some raw \<Rightarrow>
          if Validate (md raw) \<and> list_all validAdded (added raw)
          then Inr \<lparr>mdIncoming =
                      Some (transportHeaders ++
                        (case FromOutgoingContext ctx of None \<Rightarrow> Map.empty | Some m \<Rightarrow> m)),
                    mdOutgoing = None,
                    ctxValues = ctxValues ctx\<rparr>
          else Inl Internal)"

record 'v ServerStream =
  Context :: "'v Context"


section \<open>auth/interceptor.go\<close>

text \<open>
  A handler is code of the service: it may do anything to the state of the process. It is a
  function of that state, so that a call of the handler shows in the result. A unary handler
  returns \<open>(resp, err)\<close>, a stream handler and a client invoker return \<open>err\<close> (\<open>None\<close> is
  \<open>nil\<close>).
\<close>

type_synonym ('v, 'req, 'resp, 's) UnaryHandler =
  "'v Context \<Rightarrow> 'req \<Rightarrow> 's \<Rightarrow> (error + 'resp) \<times> 's"

type_synonym ('srv, 'v, 's) StreamHandler =
  "'srv \<Rightarrow> 'v ServerStream \<Rightarrow> 's \<Rightarrow> error option \<times> 's"

type_synonym ('v, 'req, 'reply, 'cc, 'opt, 's) UnaryInvoker =
  "'v Context \<Rightarrow> string \<Rightarrow> 'req \<Rightarrow> 'reply \<Rightarrow> 'cc \<Rightarrow> 'opt list \<Rightarrow> 's \<Rightarrow> error option \<times> 's"

definition isValidAuth :: "string \<Rightarrow> string \<Rightarrow> bool" where
  "isValidAuth authHeader requiredToken = (authHeader = requiredToken)"

definition UnaryServerInterceptor ::
  "string \<Rightarrow> 'v Context \<Rightarrow> 'req \<Rightarrow> 'info \<Rightarrow> ('v, 'req, 'resp, 's) UnaryHandler
     \<Rightarrow> 's \<Rightarrow> (error + 'resp) \<times> 's" where
  "UnaryServerInterceptor requiredToken ctx req info handler s =
     (if requiredToken = [] then handler ctx req s
      else case FromIncomingContext ctx of
        None \<Rightarrow> (Inl (Status Unauthenticated ''missing metadata''), s)
      | Some m \<Rightarrow>
          (let authValues = MD_Get m ''authorization'' in
           if length authValues = 0
           then (Inl (Status Unauthenticated ''missing authorization header''), s)
           else
             (let authHeader = authValues ! 0 in
              if \<not> isValidAuth authHeader requiredToken
              then (Inl (Status Unauthenticated ''invalid authorization token''), s)
              else handler ctx req s)))"

definition StreamServerInterceptor ::
  "string \<Rightarrow> 'srv \<Rightarrow> 'v ServerStream \<Rightarrow> 'info \<Rightarrow> ('srv, 'v, 's) StreamHandler
     \<Rightarrow> 's \<Rightarrow> error option \<times> 's" where
  "StreamServerInterceptor requiredToken srv ss info handler s =
     (if requiredToken = [] then handler srv ss s
      else case FromIncomingContext (Context ss) of
        None \<Rightarrow> (Some (Status Unauthenticated ''missing metadata''), s)
      | Some m \<Rightarrow>
          (let authValues = MD_Get m ''authorization'' in
           if length authValues = 0
           then (Some (Status Unauthenticated ''missing authorization header''), s)
           else
             (let authHeader = authValues ! 0 in
              if \<not> isValidAuth authHeader requiredToken
              then (Some (Status Unauthenticated ''invalid authorization token''), s)
              else handler srv ss s)))"

definition ClientInterceptor ::
  "string \<Rightarrow> 'v Context \<Rightarrow> string \<Rightarrow> 'req \<Rightarrow> 'reply \<Rightarrow> 'cc
     \<Rightarrow> ('v, 'req, 'reply, 'cc, 'opt, 's) UnaryInvoker \<Rightarrow> 'opt list
     \<Rightarrow> 's \<Rightarrow> error option \<times> 's" where
  "ClientInterceptor token ctx method req reply cc invoker opts s =
     (if token = [] then invoker ctx method req reply cc opts s
      else
        (let m = MD_New [(''authorization'', token)];
             ctx' = NewOutgoingContext ctx m
         in invoker ctx' method req reply cc opts s))"

text \<open>An invoker that does nothing but keep the context it is called with.\<close>

definition recordContext :: "('v, 'req, 'reply, 'cc, 'opt, 'v Context option) UnaryInvoker" where
  "recordContext ctx method req reply cc opts s = (None, Some ctx)"

section \<open>Entities\<close>

subsection \<open>Token, Cost, Model, Period, APIRequest\<close>

text \<open>
  Modelled from the spec: the files of \<open>entity.Token\<close>, \<open>entity.Cost\<close>, \<open>entity.Model\<close>,
  \<open>entity.Period\<close> and \<open>entity.APIRequest\<close> are not among the sources; only their callers
  and tests are. The spec gives a Token four counters (input, output, cache-read,
  cache-creation) that combine by component-wise addition; the callers print them as
  \<open>int64\<close>, so each is a 64-bit word and the addition wraps as Go's does.
\<close>

record Token =
  inputTokens :: "64 word"
  outputTokens :: "64 word"
  cacheReadTokens :: "64 word"
  cacheCreationTokens :: "64 word"

text \<open>Modelled from the spec: the constructor \<open>entity.NewToken\<close>, as the tests call it.\<close>

definition NewToken :: "64 word \<Rightarrow> 64 word \<Rightarrow> 64 word \<Rightarrow> 64 word \<Rightarrow> Token" where
  "NewToken i out cr cc =
     \<lparr>inputTokens = i, outputTokens = out, cacheReadTokens = cr, cacheCreationTokens = cc\<rparr>"

text \<open>Modelled from the spec: \<open>Token.Add\<close>, the component-wise addition of two Tokens.\<close>

definition Token_Add :: "Token \<Rightarrow> Token \<Rightarrow> Token" where
  "Token_Add t other =
     NewToken (inputTokens t + inputTokens other) (outputTokens t + outputTokens other)
       (cacheReadTokens t + cacheReadTokens other)
       (cacheCreationTokens t + cacheCreationTokens other)"

text \<open>
  Modelled from the spec: a Cost is a monetary amount that combines by addition. The code
  holds it as a \<open>float64\<close>; the amount is a rational number here, so the rounding of the
  floating-point sum is not part of the model.
\<close>

record Cost =
  amount :: rat

text \<open>Modelled from the spec: the constructor \<open>entity.NewCost\<close>, as the tests call it.\<close>

definition NewCost :: "rat \<Rightarrow> Cost" where
  "NewCost a = \<lparr>amount = a\<rparr>"

text \<open>Modelled from the spec: \<open>Cost.Add\<close>, the addition of two amounts.\<close>

definition Cost_Add :: "Cost \<Rightarrow> Cost \<Rightarrow> Cost" where
  "Cost_Add c other = NewCost (amount c + amount other)"

text \<open>
  Modelled from the spec: \<open>Model.IsBase\<close> is not among the sources. A model is a name; it
  is base iff the name contains \<open>haiku\<close>, compared without regard to case, and premium
  otherwise.
\<close>

type_synonym Model = string

definition IsBase :: "Model \<Rightarrow> bool" where
  "IsBase m = Contains (ToLower m) ''haiku''"

text \<open>
  Modelled from the spec: instants of time and periods. An instant is a whole number of
  nanoseconds since the Unix epoch and a duration a whole number of nanoseconds, as in
  Go's \<open>time\<close> package; a Period is a start and an end instant. An APIRequest has the
  fields its constructor is called with in the tests.
\<close>

type_synonym instant = int

record Period =
  periodStartAt :: instant
  periodEndAt :: instant

record APIRequest =
  sessionID :: string
  timestamp :: instant
  model :: Model
  tokens :: Token
  cost :: Cost
  durationMS :: int

definition NewAPIRequest ::
  "string \<Rightarrow> instant \<Rightarrow> Model \<Rightarrow> Token \<Rightarrow> Cost \<Rightarrow> int \<Rightarrow> APIRequest" where
  "NewAPIRequest sid ts m tk c d =
     \<lparr>sessionID = sid, timestamp = ts, model = m, tokens = tk, cost = c, durationMS = d\<rparr>"

subsection \<open>entity/stats.go\<close>

text \<open>
  The counts are Go \<open>int\<close>s, 64-bit words on the platforms the program is built for;
  their addition wraps.
\<close>

record Stats =
  baseRequests :: "64 word"
  premiumRequests :: "64 word"
  baseTokens :: Token
  premiumTokens :: Token
  baseCost :: Cost
  premiumCost :: Cost
  period :: Period

definition BaseRequests :: "Stats \<Rightarrow> 64 word" where
  "BaseRequests s = baseRequests s"

definition PremiumRequests :: "Stats \<Rightarrow> 64 word" where
  "PremiumRequests s = premiumRequests s"

definition BaseTokens :: "Stats \<Rightarrow> Token" where
  "BaseTokens s = baseTokens s"

definition PremiumTokens :: "Stats \<Rightarrow> Token" where
  "PremiumTokens s = premiumTokens s"

definition BaseCost :: "Stats \<Rightarrow> Cost" where
  "BaseCost s = baseCost s"

definition PremiumCost :: "Stats \<Rightarrow> Cost" where
  "PremiumCost s = premiumCost s"

definition TotalRequests :: "Stats \<Rightarrow> 64 word" where
  "TotalRequests s = baseRequests s + premiumRequests s"

definition TotalTokens :: "Stats \<Rightarrow> Token" where
  "TotalTokens s = Token_Add (baseTokens s) (premiumTokens s)"

definition TotalCost :: "Stats \<Rightarrow> Cost" where
  "TotalCost s = Cost_Add (baseCost s) (premiumCost s)"

definition Stats_Period :: "Stats \<Rightarrow> Period" where
  "Stats_Period s = period s"

definition NewStats ::
  "64 word \<Rightarrow> 64 word \<Rightarrow> Token \<Rightarrow> Token \<Rightarrow> Cost \<Rightarrow> Cost \<Rightarrow> Period \<Rightarrow> Stats" where
  "NewStats baseRequests' premiumRequests' baseTokens' premiumTokens' baseCost' premiumCost' period' =
     \<lparr>baseRequests = baseRequests', premiumRequests = premiumRequests',
      baseTokens = baseTokens', premiumTokens = premiumTokens',
      baseCost = baseCost', premiumCost = premiumCost', period = period'\<rparr>"

subsection \<open>The aggregation of auth/interceptor\_test.go\<close>

text \<open>
  \<open>mockAuthStatsRepository.GetStatsByPeriod\<close>: one pass over the stored requests, each
  counted and summed on the base or on the premium side by \<open>IsBase\<close> of its model. The
  six accumulators of the loop are the state. The error it returns is always \<open>nil\<close>.
\<close>

record accumulators =
  accBaseRequests :: "64 word"
  accPremiumRequests :: "64 word"
  accBaseTokens :: Token
  accPremiumTokens :: Token
  accBaseCost :: Cost
  accPremiumCost :: Cost

fun aggregate :: "APIRequest list \<Rightarrow> accumulators \<Rightarrow> accumulators" where
  "aggregate [] acc = acc"
| "aggregate (req # requests) acc =
     (if IsBase (model req)
      then aggregate requests
             (acc\<lparr>accBaseRequests := accBaseRequests acc + 1,
                  accBaseTokens := Token_Add (accBaseTokens acc) (tokens req),
                  accBaseCost := Cost_Add (accBaseCost acc) (cost req)\<rparr>)
      else aggregate requests
             (acc\<lparr>accPremiumRequests := accPremiumRequests acc + 1,
                  accPremiumTokens := Token_Add (accPremiumTokens acc) (tokens req),
                  accPremiumCost := Cost_Add (accPremiumCost acc) (cost req)\<rparr>))"

definition GetStatsByPeriod :: "APIRequest list \<Rightarrow> Period \<Rightarrow> Stats" where
  "GetStatsByPeriod requests p =
     (let acc = aggregate requests
                  \<lparr>accBaseRequests = 0, accPremiumRequests = 0,
                   accBaseTokens = NewToken 0 0 0 0, accPremiumTokens = NewToken 0 0 0 0,
                   accBaseCost = NewCost 0, accPremiumCost = NewCost 0\<rparr>
      in NewStats (accBaseRequests acc) (accPremiumRequests acc)
           (accBaseTokens acc) (accPremiumTokens acc)
           (accBaseCost acc) (accPremiumCost acc) p)"

text \<open>The sum of a list of Tokens and of a list of Costs, to state what the loop computes.\<close>

definition sumTokens :: "Token list \<Rightarrow> Token" where
  "sumTokens ts =
     NewToken (sum_list (map inputTokens ts)) (sum_list (map outputTokens ts))
       (sum_list (map cacheReadTokens ts)) (sum_list (map cacheCreationTokens ts))"

definition sumCosts :: "Cost list \<Rightarrow> Cost" where
  "sumCosts cs = NewCost (sum_list (map amount cs))"

subsection \<open>Block\<close>

text \<open>
  Modelled from the spec: \<open>entity/block.go\<close> is not among the sources; its test and the
  renderer that calls it are. A Block is a start instant and a token limit; its duration is
  the constant five hours.
\<close>

text \<open>\<open>time.Hour\<close> and the five hours of \<open>entity.TimeBlockDuration\<close>, in nanoseconds.\<close>

definition Hour :: int where
  "Hour = 3600 * 1000000000"

definition TimeBlockDuration :: int where
  "TimeBlockDuration = 5 * Hour"

record Block =
  startAt :: instant
  tokenLimit :: int

text \<open>
  Modelled from the spec: the constructor \<open>entity.NewBlock\<close> of the test, which gives no
  limit, and the accessors \<open>StartAt\<close>, \<open>EndAt\<close>, \<open>TokenLimit\<close> and \<open>HasLimit\<close> that the test
  and the renderer call. \<open>EndAt\<close> is \<open>startAt + duration\<close>.
\<close>

definition NewBlock :: "instant \<Rightarrow> Block" where
  "NewBlock start = \<lparr>startAt = start, tokenLimit = 0\<rparr>"

definition StartAt :: "Block \<Rightarrow> instant" where
  "StartAt b = startAt b"

definition EndAt :: "Block \<Rightarrow> instant" where
  "EndAt b = startAt b + TimeBlockDuration"

definition TokenLimit :: "Block \<Rightarrow> int" where
  "TokenLimit b = tokenLimit b"

definition HasLimit :: "Block \<Rightarrow> bool" where
  "HasLimit b = (0 < tokenLimit b)"

text \<open>
  Modelled from the spec: \<open>Block.NextBlock\<close>. When \<open>now\<close> is in \<open>[startAt, startAt + duration)\<close>
  the block itself is returned. Otherwise the number of whole durations between \<open>startAt\<close>
  and \<open>now\<close> is the floor division of the elapsed time by the duration, a count that is
  never negative (it is zero when \<open>now\<close> is before \<open>startAt\<close>), and the new block starts
  that many durations after \<open>startAt\<close>.
\<close>

definition NextBlock :: "Block \<Rightarrow> instant \<Rightarrow> Block" where
  "NextBlock b now =
     (if startAt b \<le> now \<and> now < EndAt b then b
      else
        (let elapsed = now - startAt b;
             k = nat (elapsed div TimeBlockDuration)
         in b\<lparr>startAt := startAt b + int k * TimeBlockDuration\<rparr>))"

text \<open>
  Modelled from the spec: \<open>Block.CalculateProgress\<close> returns \<open>tokensUsed / limit * 100\<close>.
  The code computes it in \<open>float64\<close>; it is a rational number here.
\<close>

definition CalculateProgress :: "Block \<Rightarrow> int \<Rightarrow> rat" where
  "CalculateProgress b tokensUsed = of_int tokensUsed / of_int (tokenLimit b) * 100"

subsection \<open>handler/tui/stats\_renderer.go\<close>

text \<open>
  \<open>renderBlockProgress\<close>: the percentage it hands to \<open>RenderProgressBar\<close> and prints beside
  the bar is the progress of the block, cut at 100. The source passes the premium Tokens of
  the block's statistics to \<open>CalculateProgress\<close>; \<open>tokensUsed\<close> is the count it takes from
  them.
\<close>

definition renderBlockProgress_percentage :: "Block \<Rightarrow> int \<Rightarrow> rat" where
  "renderBlockProgress_percentage b tokensUsed =
     (let percentage = CalculateProgress b tokensUsed
      in if percentage > 100 then 100 else percentage)"

subsection \<open>Plan\<close>

text \<open>
  Modelled from the spec: \<open>entity.Plan\<close> and the usage percentages of the format query are
  not among the sources; the tests of \<open>handler/cli/integration\_test.go\<close> are. A Plan is a
  name and a price. The plan named \<open>unset\<close> yields zero for every usage percentage; so
  does a price that cannot be divided by. Otherwise the monthly percentage is the cost of
  the month over the price, and the daily percentage is the cost of the day over the
  price divided by the days of the month, both times 100 and cut to an integer as Go's
  \<open>int(x)\<close> does, towards zero.
\<close>

record Plan =
  name :: string
  price :: Cost

text \<open>Modelled from the spec: the constructor \<open>entity.NewPlan\<close>, as the tests call it.\<close>

definition NewPlan :: "string \<Rightarrow> Cost \<Rightarrow> Plan" where
  "NewPlan n p = \<lparr>name = n, price = p\<rparr>"

text \<open>Go's conversion \<open>int(x)\<close> of a fractional number: the fraction is dropped.\<close>

definition truncateToInt :: "rat \<Rightarrow> int" where
  "truncateToInt x = (if 0 \<le> x then \<lfloor>x\<rfloor> else \<lceil>x\<rceil>)"

text \<open>
  Modelled from the spec: the usage percentage of a month's cost against a plan, zero for
  the plan \<open>unset\<close>.
\<close>

definition CalculateUsagePercentage :: "Plan \<Rightarrow> Cost \<Rightarrow> int" where
  "CalculateUsagePercentage p actualCost =
     (if name p = ''unset'' \<or> amount (price p) \<le> 0 then 0
      else truncateToInt (amount actualCost / amount (price p) * 100))"

text \<open>
  Modelled from the spec: the usage percentage of a day's cost against a plan, zero for
  the plan \<open>unset\<close>; the formula is that of \<open>calculateExpectedDailyUsage\<close> in the test.
\<close>

definition CalculateDailyUsagePercentage :: "Plan \<Rightarrow> Cost \<Rightarrow> int \<Rightarrow> int" where
  "CalculateDailyUsagePercentage p dailyCost daysInMonth =
     (if name p = ''unset'' \<or> amount (price p) \<le> 0 \<or> daysInMonth \<le> 0 then 0
      else
        (let dailyBudget = amount (price p) / of_int daysInMonth
         in truncateToInt (amount dailyCost / dailyBudget * 100)))"


section \<open>Properties of the authentication interceptors\<close>

lemma ToLower_authorization: "ToLower ''authorization'' = ''authorization''"
  by (simp add: ToLower_def isUpperASCII_def)

lemma MD_Get_authorization:
  "MD_Get m ''authorization'' = (case m ''authorization'' of None \<Rightarrow> [] | Some vs \<Rightarrow> vs)"
  by (simp add: MD_Get_def ToLower_authorization)

lemma Unary_nonempty:
  "T \<noteq> [] \<Longrightarrow>
   UnaryServerInterceptor T ctx req info handler s =
     (case FromIncomingContext ctx of
        None \<Rightarrow> (Inl (Status Unauthenticated ''missing metadata''), s)
      | Some m \<Rightarrow>
          (case MD_Get m ''authorization'' of
             [] \<Rightarrow> (Inl (Status Unauthenticated ''missing authorization header''), s)
           | v # vs \<Rightarrow>
               if v = T then handler ctx req s
               else (Inl (Status Unauthenticated ''invalid authorization token''), s)))"
  by (simp add: UnaryServerInterceptor_def isValidAuth_def Let_def
      split: option.splits list.splits)

lemma Stream_nonempty:
  "T \<noteq> [] \<Longrightarrow>
   StreamServerInterceptor T srv ss info handler s =
     (case FromIncomingContext (Context ss) of
        None \<Rightarrow> (Some (Status Unauthenticated ''missing metadata''), s)
      | Some m \<Rightarrow>
          (case MD_Get m ''authorization'' of
             [] \<Rightarrow> (Some (Status Unauthenticated ''missing authorization header''), s)
           | v # vs \<Rightarrow>
               if v = T then handler srv ss s
               else (Some (Status Unauthenticated ''invalid authorization token''), s)))"
  by (simp add: StreamServerInterceptor_def isValidAuth_def Let_def
      split: option.splits list.splits)

lemma Client_nonempty:
  "T \<noteq> [] \<Longrightarrow>
   ClientInterceptor T ctx method req reply cc invoker opts s =
     invoker (NewOutgoingContext ctx (MD_New [(''authorization'', T)])) method req reply cc opts s"
  by (simp add: ClientInterceptor_def Let_def)

lemma MD_New_authorization: "MD_New [(''authorization'', T)] = [''authorization'' \<mapsto> [T]]"
  by (simp add: MD_New_def ToLower_authorization)

lemma FromOutgoing_New: "FromOutgoingContext (NewOutgoingContext ctx m) = Some m"
  by (simp add: FromOutgoingContext_def NewOutgoingContext_def)

lemma ValidatePair_authorization:
  "ValidatePair ''authorization'' [T] = (\<not> hasNotPrintable T)"
  by (simp add: ValidatePair_def isHeaderKeyChar_def HasSuffix_def)

lemma Validate_authorization: "Validate [''authorization'' \<mapsto> [T]] = (\<not> hasNotPrintable T)"
  by (simp add: Validate_def ValidatePair_authorization)

lemma received_authorization:
  "received hdrs (NewOutgoingContext ctx (MD_New [(''authorization'', T)])) =
     (if hasNotPrintable T then Inl Internal
      else Inr \<lparr>mdIncoming = Some (hdrs(''authorization'' \<mapsto> [T])), mdOutgoing = None,
                ctxValues = ctxValues ctx\<rparr>)"
  by (simp add: received_def NewOutgoingContext_def FromOutgoingContext_def
      MD_New_authorization Validate_authorization)

lemma Unary_cases:
  assumes "T \<noteq> []"
  shows
   "(FromIncomingContext ctx = None \<longrightarrow>
       UnaryServerInterceptor T ctx req info handler s
         = (Inl (Status Unauthenticated ''missing metadata''), s)) \<and>
    (\<forall>m. FromIncomingContext ctx = Some m \<and> MD_Get m ''authorization'' = [] \<longrightarrow>
       UnaryServerInterceptor T ctx req info handler s
         = (Inl (Status Unauthenticated ''missing authorization header''), s)) \<and>
    (\<forall>m v vs. FromIncomingContext ctx = Some m \<and> MD_Get m ''authorization'' = v # vs \<and> v \<noteq> T \<longrightarrow>
       UnaryServerInterceptor T ctx req info handler s
         = (Inl (Status Unauthenticated ''invalid authorization token''), s)) \<and>
    (\<forall>m vs. FromIncomingContext ctx = Some m \<and> MD_Get m ''authorization'' = T # vs \<longrightarrow>
       UnaryServerInterceptor T ctx req info handler s = handler ctx req s) \<and>
    ((\<forall>msg. UnaryServerInterceptor T ctx req info handler s
              \<noteq> (Inl (Status Unauthenticated msg), s)) \<longrightarrow>
       (\<exists>m vs. FromIncomingContext ctx = Some m \<and> MD_Get m ''authorization'' = T # vs))"
  using assms by (auto simp: Unary_nonempty split: option.splits list.splits)

lemma Stream_cases:
  assumes "T \<noteq> []"
  shows
   "(FromIncomingContext (Context ss) = None \<longrightarrow>
       StreamServerInterceptor T srv ss info handler s
         = (Some (Status Unauthenticated ''missing metadata''), s)) \<and>
    (\<forall>m. FromIncomingContext (Context ss) = Some m \<and> MD_Get m ''authorization'' = [] \<longrightarrow>
       StreamServerInterceptor T srv ss info handler s
         = (Some (Status Unauthenticated ''missing authorization header''), s)) \<and>
    (\<forall>m v vs. FromIncomingContext (Context ss) = Some m \<and> MD_Get m ''authorization'' = v # vs
         \<and> v \<noteq> T \<longrightarrow>
       StreamServerInterceptor T srv ss info handler s
         = (Some (Status Unauthenticated ''invalid authorization token''), s)) \<and>
    (\<forall>m vs. FromIncomingContext (Context ss) = Some m \<and> MD_Get m ''authorization'' = T # vs \<longrightarrow>
       StreamServerInterceptor T srv ss info handler s = handler srv ss s) \<and>
    ((\<forall>msg. StreamServerInterceptor T srv ss info handler s
              \<noteq> (Some (Status Unauthenticated msg), s)) \<longrightarrow>
       (\<exists>m vs. FromIncomingContext (Context ss) = Some m \<and> MD_Get m ''authorization'' = T # vs))"
  using assms by (auto simp: Stream_nonempty split: option.splits list.splits)

text \<open>
  C2. With a non-empty configured token \<open>T\<close>, on the unary and on the streaming path: a call
  without incoming metadata, a call whose metadata has no value under \<open>authorization\<close>, and a
  call whose value there is any string other than \<open>T\<close> all return an Unauthenticated status
  with the state untouched, whatever the handler is, so the handler has not run; a call whose
  value is \<open>T\<close> returns what the handler returns; and a call that does not end in that
  Unauthenticated status carried the value \<open>T\<close>. The comparison is equality of the two
  strings: nothing is hashed and no scheme is split off.
\<close>

theorem server_requires_exact_token:
  assumes "T \<noteq> []"
  shows
   "((FromIncomingContext ctx = None \<longrightarrow>
       UnaryServerInterceptor T ctx req info handler s
         = (Inl (Status Unauthenticated ''missing metadata''), s)) \<and>
    (\<forall>m. FromIncomingContext ctx = Some m \<and> MD_Get m ''authorization'' = [] \<longrightarrow>
       UnaryServerInterceptor T ctx req info handler s
         = (Inl (Status Unauthenticated ''missing authorization header''), s)) \<and>
    (\<forall>m v vs. FromIncomingContext ctx = Some m \<and> MD_Get m ''authorization'' = v # vs \<and> v \<noteq> T \<longrightarrow>
       UnaryServerInterceptor T ctx req info handler s
         = (Inl (Status Unauthenticated ''invalid authorization token''), s)) \<and>
    (\<forall>m vs. FromIncomingContext ctx = Some m \<and> MD_Get m ''authorization'' = T # vs \<longrightarrow>
       UnaryServerInterceptor T ctx req info handler s = handler ctx req s) \<and>
    ((\<forall>msg. UnaryServerInterceptor T ctx req info handler s
              \<noteq> (Inl (Status Unauthenticated msg), s)) \<longrightarrow>
       (\<exists>m vs. FromIncomingContext ctx = Some m \<and> MD_Get m ''authorization'' = T # vs))) \<and>
    ((FromIncomingContext (Context ss) = None \<longrightarrow>
       StreamServerInterceptor T srv ss sinfo shandler t
         = (Some (Status Unauthenticated ''missing metadata''), t)) \<and>
    (\<forall>m. FromIncomingContext (Context ss) = Some m \<and> MD_Get m ''authorization'' = [] \<longrightarrow>
       StreamServerInterceptor T srv ss sinfo shandler t
         = (Some (Status Unauthenticated ''missing authorization header''), t)) \<and>
    (\<forall>m v vs. FromIncomingContext (Context ss) = Some m \<and> MD_Get m ''authorization'' = v # vs
         \<and> v \<noteq> T \<longrightarrow>
       StreamServerInterceptor T srv ss sinfo shandler t
         = (Some (Status Unauthenticated ''invalid authorization token''), t)) \<and>
    (\<forall>m vs. FromIncomingContext (Context ss) = Some m \<and> MD_Get m ''authorization'' = T # vs \<longrightarrow>
       StreamServerInterceptor T srv ss sinfo shandler t = shandler srv ss t) \<and>
    ((\<forall>msg. StreamServerInterceptor T srv ss sinfo shandler t
              \<noteq> (Some (Status Unauthenticated msg), t)) \<longrightarrow>
       (\<exists>m vs. FromIncomingContext (Context ss) = Some m \<and> MD_Get m ''authorization'' = T # vs)))"
  using Unary_cases [OF assms, of ctx req info handler s]
    Stream_cases [OF assms, of ss srv sinfo shandler t]
  by (rule conjI)

theorem server_requires_exact_token_witness:
  "''secret'' \<noteq> [] \<and>
   UnaryServerInterceptor ''secret''
      \<lparr>mdIncoming = None, mdOutgoing = None, ctxValues = ()\<rparr>
      (7::nat) () (\<lambda>c r n. (Inr r, Suc n)) (0::nat)
     = (Inl (Status Unauthenticated ''missing metadata''), 0) \<and>
   UnaryServerInterceptor ''secret''
      \<lparr>mdIncoming = Some Map.empty, mdOutgoing = None, ctxValues = ()\<rparr>
      (7::nat) () (\<lambda>c r n. (Inr r, Suc n)) (0::nat)
     = (Inl (Status Unauthenticated ''missing authorization header''), 0) \<and>
   UnaryServerInterceptor ''secret''
      \<lparr>mdIncoming = Some [''authorization'' \<mapsto> [''Bearer secret'']], mdOutgoing = None,
       ctxValues = ()\<rparr>
      (7::nat) () (\<lambda>c r n. (Inr r, Suc n)) (0::nat)
     = (Inl (Status Unauthenticated ''invalid authorization token''), 0) \<and>
   UnaryServerInterceptor ''secret''
      \<lparr>mdIncoming = Some [''authorization'' \<mapsto> [''secret'']], mdOutgoing = None,
       ctxValues = ()\<rparr>
      (7::nat) () (\<lambda>c r n. (Inr r, Suc n)) (0::nat)
     = (Inr 7, 1) \<and>
   StreamServerInterceptor ''secret'' ()
      \<lparr>Context = \<lparr>mdIncoming = Some [''authorization'' \<mapsto> [''Secret'']], mdOutgoing = None,
         ctxValues = ()\<rparr>\<rparr>
      () (\<lambda>sv st n. (None, Suc n)) (0::nat)
     = (Some (Status Unauthenticated ''invalid authorization token''), 0) \<and>
   StreamServerInterceptor ''secret'' ()
      \<lparr>Context = \<lparr>mdIncoming = Some [''authorization'' \<mapsto> [''secret'']], mdOutgoing = None,
         ctxValues = ()\<rparr>\<rparr>
      () (\<lambda>sv st n. (None, Suc n)) (0::nat)
     = (None, 1)"
  using
    server_requires_exact_token [where T = "''secret''"
      and ctx = "\<lparr>mdIncoming = None, mdOutgoing = None, ctxValues = ()\<rparr>"
      and req = "7::nat" and info = "()" and handler = "\<lambda>c r n. (Inr r, Suc n)" and s = "0::nat"
      and ss = "\<lparr>Context = \<lparr>mdIncoming = Some [''authorization'' \<mapsto> [''Secret'']],
         mdOutgoing = None, ctxValues = ()\<rparr>\<rparr>"
      and srv = "()" and sinfo = "()" and shandler = "\<lambda>sv st n. (None, Suc n)" and t = "0::nat"]
    server_requires_exact_token [where T = "''secret''"
      and ctx = "\<lparr>mdIncoming = Some Map.empty, mdOutgoing = None, ctxValues = ()\<rparr>"
      and req = "7::nat" and info = "()" and handler = "\<lambda>c r n. (Inr r, Suc n)" and s = "0::nat"
      and ss = "\<lparr>Context = \<lparr>mdIncoming = Some [''authorization'' \<mapsto> [''secret'']],
         mdOutgoing = None, ctxValues = ()\<rparr>\<rparr>"
      and srv = "()" and sinfo = "()" and shandler = "\<lambda>sv st n. (None, Suc n)" and t = "0::nat"]
    server_requires_exact_token [where T = "''secret''"
      and ctx = "\<lparr>mdIncoming = Some [''authorization'' \<mapsto> [''Bearer secret'']],
         mdOutgoing = None, ctxValues = ()\<rparr>"
      and req = "7::nat" and info = "()" and handler = "\<lambda>c r n. (Inr r, Suc n)" and s = "0::nat"
      and ss = "\<lparr>Context = \<lparr>mdIncoming = Some [''authorization'' \<mapsto> [''secret'']],
         mdOutgoing = None, ctxValues = ()\<rparr>\<rparr>"
      and srv = "()" and sinfo = "()" and shandler = "\<lambda>sv st n. (None, Suc n)" and t = "0::nat"]
    server_requires_exact_token [where T = "''secret''"
      and ctx = "\<lparr>mdIncoming = Some [''authorization'' \<mapsto> [''secret'']],
         mdOutgoing = None, ctxValues = ()\<rparr>"
      and req = "7::nat" and info = "()" and handler = "\<lambda>c r n. (Inr r, Suc n)" and s = "0::nat"
      and ss = "\<lparr>Context = \<lparr>mdIncoming = Some [''authorization'' \<mapsto> [''secret'']],
         mdOutgoing = None, ctxValues = ()\<rparr>\<rparr>"
      and srv = "()" and sinfo = "()" and shandler = "\<lambda>sv st n. (None, Suc n)" and t = "0::nat"]
  by (simp add: FromIncomingContext_def MD_Get_authorization)

text \<open>
  C3. With the empty token nothing is checked: both server interceptors return what the
  handler returns on the same arguments, whatever the context carries, and the client
  interceptor calls the invoker with the context it was given.
\<close>

theorem empty_token_disables_auth:
  "UnaryServerInterceptor [] ctx req info handler s = handler ctx req s \<and>
   StreamServerInterceptor [] srv ss sinfo shandler t = shandler srv ss t \<and>
   ClientInterceptor [] cctx method creq reply cc invoker opts u
     = invoker cctx method creq reply cc opts u"
  by (simp add: UnaryServerInterceptor_def StreamServerInterceptor_def ClientInterceptor_def)

text \<open>
  C8, as stated, fails: the token of the four bytes \<open>t\<close>, \<open>0xC3\<close>, \<open>0xB6\<close>, \<open>k\<close> (in UTF-8:
  t, o with diaeresis, k) is not empty, the client interceptor hands it to the invoker in the outgoing
  metadata, and the transport refuses that metadata with the code \<open>Internal\<close>, so the call
  never comes to the server's check.
\<close>

theorem client_token_passes_server_counterexample:
  "[CHR ''t'', CHR 0xC3, CHR 0xB6, CHR ''k''] \<noteq> [] \<and>
   ClientInterceptor [CHR ''t'', CHR 0xC3, CHR 0xB6, CHR ''k'']
      \<lparr>mdIncoming = None, mdOutgoing = None, ctxValues = ()\<rparr> ''GetStats'' () () ()
      recordContext ([] :: unit list) None
     = (None,
        Some \<lparr>mdIncoming = None,
              mdOutgoing = Some \<lparr>md = [''authorization'' \<mapsto> [[CHR ''t'', CHR 0xC3, CHR 0xB6, CHR ''k'']]],
                                  added = []\<rparr>,
              ctxValues = ()\<rparr>) \<and>
   received Map.empty
      \<lparr>mdIncoming = None,
       mdOutgoing = Some \<lparr>md = [''authorization'' \<mapsto> [[CHR ''t'', CHR 0xC3, CHR 0xB6, CHR ''k'']]],
                           added = []\<rparr>,
       ctxValues = ()\<rparr>
     = Inl Internal"
  by (simp add: ClientInterceptor_def recordContext_def NewOutgoingContext_def
      MD_New_authorization received_def Validate_authorization hasNotPrintable_def)

text \<open>
  C8, amended. With a non-empty token \<open>T\<close> the client interceptor calls the invoker with one
  context, the same for every invoker, whose outgoing metadata holds exactly the value \<open>T\<close>
  under \<open>authorization\<close>. When every byte of \<open>T\<close> is printable ASCII, the transport delivers
  that metadata, and a server configured with \<open>T\<close> that receives it runs its handler, on the
  unary and on the streaming path. When some byte of \<open>T\<close> is not, the transport refuses the
  call with the code \<open>Internal\<close>.
\<close>

theorem client_printable_token_passes_server:
  assumes "T \<noteq> []"
  shows
   "\<exists>ctx'.
      (\<forall>(invoker :: ('v, 'req, 'reply, 'cc, 'opt, 's) UnaryInvoker) opts s.
         ClientInterceptor T ctx method req reply cc invoker opts s
           = invoker ctx' method req reply cc opts s) \<and>
      (\<exists>m. FromOutgoingContext ctx' = Some m \<and> MD_Get m ''authorization'' = [T]) \<and>
      (\<not> hasNotPrintable T \<longrightarrow>
         (\<forall>hdrs. received hdrs ctx'
            = Inr \<lparr>mdIncoming = Some (hdrs(''authorization'' \<mapsto> [T])), mdOutgoing = None,
                   ctxValues = ctxValues ctx\<rparr>) \<and>
         (\<forall>hdrs (info :: 'info) (handler :: ('v, 'req, 'resp, 't) UnaryHandler) s.
            UnaryServerInterceptor T
              \<lparr>mdIncoming = Some (hdrs(''authorization'' \<mapsto> [T])), mdOutgoing = None,
               ctxValues = ctxValues ctx\<rparr> req info handler s
            = handler
              \<lparr>mdIncoming = Some (hdrs(''authorization'' \<mapsto> [T])), mdOutgoing = None,
               ctxValues = ctxValues ctx\<rparr> req s) \<and>
         (\<forall>hdrs (srv :: 'srv) (info :: 'sinfo) (handler :: ('srv, 'v, 'u) StreamHandler) s.
            StreamServerInterceptor T srv
              \<lparr>Context = \<lparr>mdIncoming = Some (hdrs(''authorization'' \<mapsto> [T])),
                 mdOutgoing = None, ctxValues = ctxValues ctx\<rparr>\<rparr> info handler s
            = handler srv
              \<lparr>Context = \<lparr>mdIncoming = Some (hdrs(''authorization'' \<mapsto> [T])),
                 mdOutgoing = None, ctxValues = ctxValues ctx\<rparr>\<rparr> s)) \<and>
      (hasNotPrintable T \<longrightarrow> (\<forall>hdrs. received hdrs ctx' = Inl Internal))"
proof -
  let ?ctx = "NewOutgoingContext ctx (MD_New [(''authorization'', T)])"
  let ?S = "\<lambda>hdrs :: MD. \<lparr>mdIncoming = Some (hdrs(''authorization'' \<mapsto> [T])), mdOutgoing = None,
               ctxValues = ctxValues ctx\<rparr>"
  have a: "\<forall>(invoker :: ('v, 'req, 'reply, 'cc, 'opt, 's) UnaryInvoker) opts s.
         ClientInterceptor T ctx method req reply cc invoker opts s
           = invoker ?ctx method req reply cc opts s"
    using assms by (simp add: Client_nonempty)
  have b: "\<exists>m. FromOutgoingContext ?ctx = Some m \<and> MD_Get m ''authorization'' = [T]"
    by (simp add: FromOutgoing_New MD_New_authorization MD_Get_authorization)
  have g: "MD_Get (hdrs(''authorization'' \<mapsto> [T])) ''authorization'' = [T]" for hdrs :: MD
    by (simp add: MD_Get_authorization)
  have c1: "\<not> hasNotPrintable T \<longrightarrow> (\<forall>hdrs. received hdrs ?ctx = Inr (?S hdrs))"
    by (simp add: received_authorization)
  have c2: "\<forall>hdrs (info :: 'info) (handler :: ('v, 'req, 'resp, 't) UnaryHandler) s.
         UnaryServerInterceptor T (?S hdrs) req info handler s = handler (?S hdrs) req s"
    using assms by (simp add: Unary_nonempty FromIncomingContext_def g)
  have c3: "\<forall>hdrs (srv :: 'srv) (info :: 'sinfo) (handler :: ('srv, 'v, 'u) StreamHandler) s.
         StreamServerInterceptor T srv \<lparr>Context = ?S hdrs\<rparr> info handler s
           = handler srv \<lparr>Context = ?S hdrs\<rparr> s"
    using assms by (simp add: Stream_nonempty FromIncomingContext_def g)
  have d: "hasNotPrintable T \<longrightarrow> (\<forall>hdrs. received hdrs ?ctx = Inl Internal)"
    by (simp add: received_authorization)
  show ?thesis using a b c1 c2 c3 d by (intro exI[of _ ?ctx] conjI impI) simp_all
qed

theorem client_printable_token_passes_server_witness:
  "''tok'' \<noteq> [] \<and> \<not> hasNotPrintable ''tok'' \<and>
   ClientInterceptor ''tok''
      \<lparr>mdIncoming = None, mdOutgoing = None, ctxValues = ()\<rparr> ''GetStats'' (7::nat) () ()
      (\<lambda>c meth rq rp cn os n.
         case received Map.empty c of
           Inl code \<Rightarrow> (Some (Status code []), n)
         | Inr sc \<Rightarrow>
            (case UnaryServerInterceptor ''tok'' sc rq () (\<lambda>c' r k. (Inr r, Suc k)) n of
               (Inl e, n') \<Rightarrow> (Some e, n')
             | (Inr (r::nat), n') \<Rightarrow> (None, n')))
      ([]::unit list) (0::nat)
     = (None, 1) \<and>
   [CHR ''t'', CHR 0xC3, CHR 0xB6, CHR ''k''] \<noteq> [] \<and>
   hasNotPrintable [CHR ''t'', CHR 0xC3, CHR 0xB6, CHR ''k''] \<and>
   ClientInterceptor [CHR ''t'', CHR 0xC3, CHR 0xB6, CHR ''k'']
      \<lparr>mdIncoming = None, mdOutgoing = None, ctxValues = ()\<rparr> ''GetStats'' (7::nat) () ()
      (\<lambda>c meth rq rp cn os n.
         case received Map.empty c of
           Inl code \<Rightarrow> (Some (Status code []), n)
         | Inr sc \<Rightarrow>
            (case UnaryServerInterceptor [CHR ''t'', CHR 0xC3, CHR 0xB6, CHR ''k''] sc rq ()
                    (\<lambda>c' r k. (Inr r, Suc k)) n of
               (Inl e, n') \<Rightarrow> (Some e, n')
             | (Inr (r::nat), n') \<Rightarrow> (None, n')))
      ([]::unit list) (0::nat)
     = (Some (Status Internal []), 0)"
proof -
  have ne: "''tok'' \<noteq> []" by simp
  have pr: "\<not> hasNotPrintable ''tok''" by (simp add: hasNotPrintable_def)
  have ne': "[CHR ''t'', CHR 0xC3, CHR 0xB6, CHR ''k''] \<noteq> []" by simp
  have npr: "hasNotPrintable [CHR ''t'', CHR 0xC3, CHR 0xB6, CHR ''k'']"
    by (simp add: hasNotPrintable_def)
  from client_printable_token_passes_server [
      where ?'opt = unit and ?'s = nat and ?'info = unit and ?'resp = nat and ?'t = nat,
      OF ne,
      of "\<lparr>mdIncoming = None, mdOutgoing = None, ctxValues = ()\<rparr>"
         "''GetStats''" "7::nat" "()" "()"]
  have passes: "ClientInterceptor ''tok''
      \<lparr>mdIncoming = None, mdOutgoing = None, ctxValues = ()\<rparr> ''GetStats'' (7::nat) () ()
      (\<lambda>c meth rq rp cn os n.
         case received Map.empty c of
           Inl code \<Rightarrow> (Some (Status code []), n)
         | Inr sc \<Rightarrow>
            (case UnaryServerInterceptor ''tok'' sc rq () (\<lambda>c' r k. (Inr r, Suc k)) n of
               (Inl e, n') \<Rightarrow> (Some e, n')
             | (Inr (r::nat), n') \<Rightarrow> (None, n')))
      ([]::unit list) (0::nat)
     = (None, 1)"
    using pr by (elim exE conjE, simp, elim conjE, simp)
  from client_printable_token_passes_server [
      where ?'opt = unit and ?'s = nat and ?'info = unit and ?'resp = nat and ?'t = nat,
      OF ne',
      of "\<lparr>mdIncoming = None, mdOutgoing = None, ctxValues = ()\<rparr>"
         "''GetStats''" "7::nat" "()" "()"]
  have refused: "ClientInterceptor [CHR ''t'', CHR 0xC3, CHR 0xB6, CHR ''k'']
      \<lparr>mdIncoming = None, mdOutgoing = None, ctxValues = ()\<rparr> ''GetStats'' (7::nat) () ()
      (\<lambda>c meth rq rp cn os n.
         case received Map.empty c of
           Inl code \<Rightarrow> (Some (Status code []), n)
         | Inr sc \<Rightarrow>
            (case UnaryServerInterceptor [CHR ''t'', CHR 0xC3, CHR 0xB6, CHR ''k''] sc rq ()
                    (\<lambda>c' r k. (Inr r, Suc k)) n of
               (Inl e, n') \<Rightarrow> (Some e, n')
             | (Inr (r::nat), n') \<Rightarrow> (None, n')))
      ([]::unit list) (0::nat)
     = (Some (Status Internal []), 0)"
    using npr by (elim exE conjE, simp)
  show ?thesis
    using ne pr passes ne' npr refused by (intro conjI)
qed

text \<open>
  C9. With a non-empty token \<open>T\<close> and several values under \<open>authorization\<close>, only the first
  one counts on both paths: when it differs from \<open>T\<close> the call is Unauthenticated and the
  handler has not run, even when \<open>T\<close> is among the later values.
\<close>

theorem server_compares_first_value_only:
  assumes "T \<noteq> []" and "v \<noteq> T" and "T \<in> set vs"
    and "FromIncomingContext ctx = Some m" and "MD_Get m ''authorization'' = v # vs"
    and "FromIncomingContext (Context ss) = Some m"
  shows
   "UnaryServerInterceptor T ctx req info handler s
      = (Inl (Status Unauthenticated ''invalid authorization token''), s) \<and>
    StreamServerInterceptor T srv ss sinfo shandler t
      = (Some (Status Unauthenticated ''invalid authorization token''), t)"
  using assms by (simp add: Unary_nonempty Stream_nonempty)

theorem server_compares_first_value_only_witness:
  "''secret'' \<noteq> [] \<and> ''wrong'' \<noteq> ''secret'' \<and> ''secret'' \<in> set [''secret''] \<and>
   UnaryServerInterceptor ''secret''
      \<lparr>mdIncoming = Some [''authorization'' \<mapsto> [''wrong'', ''secret'']], mdOutgoing = None,
       ctxValues = ()\<rparr>
      (7::nat) () (\<lambda>c r n. (Inr r, Suc n)) (0::nat)
     = (Inl (Status Unauthenticated ''invalid authorization token''), 0) \<and>
   StreamServerInterceptor ''secret'' ()
      \<lparr>Context = \<lparr>mdIncoming = Some [''authorization'' \<mapsto> [''wrong'', ''secret'']],
         mdOutgoing = None, ctxValues = ()\<rparr>\<rparr>
      () (\<lambda>sv st n. (None, Suc n)) (0::nat)
     = (Some (Status Unauthenticated ''invalid authorization token''), 0)"
  using server_compares_first_value_only [where T = "''secret''" and v = "''wrong''"
      and vs = "[''secret'']" and m = "[''authorization'' \<mapsto> [''wrong'', ''secret'']]"
      and ctx = "\<lparr>mdIncoming = Some [''authorization'' \<mapsto> [''wrong'', ''secret'']],
         mdOutgoing = None, ctxValues = ()\<rparr>"
      and ss = "\<lparr>Context = \<lparr>mdIncoming = Some [''authorization'' \<mapsto> [''wrong'', ''secret'']],
         mdOutgoing = None, ctxValues = ()\<rparr>\<rparr>"
      and req = "7::nat" and info = "()" and handler = "\<lambda>c r n. (Inr r, Suc n)" and s = "0::nat"
      and srv = "()" and sinfo = "()" and shandler = "\<lambda>sv st n. (None, Suc n)" and t = "0::nat"]
  by (simp add: FromIncomingContext_def MD_Get_authorization)

text \<open>
  C10. With a non-empty token \<open>T\<close> the context the client interceptor hands to the invoker
  has as outgoing metadata a new map with the one key \<open>authorization\<close> and no appended
  pairs; the rest of the context is as before, and the call is the same whatever outgoing
  metadata the given context had, so none of it is kept.
\<close>

theorem client_replaces_outgoing_metadata:
  assumes "T \<noteq> []"
  shows
   "\<exists>ctx'.
      (\<forall>(invoker :: ('v, 'req, 'reply, 'cc, 'opt, 's) UnaryInvoker) opts s.
         ClientInterceptor T ctx method req reply cc invoker opts s
           = invoker ctx' method req reply cc opts s) \<and>
      mdOutgoing ctx' = Some \<lparr>md = [''authorization'' \<mapsto> [T]], added = []\<rparr> \<and>
      (\<exists>m. FromOutgoingContext ctx' = Some m \<and> dom m = {''authorization''}) \<and>
      mdIncoming ctx' = mdIncoming ctx \<and> ctxValues ctx' = ctxValues ctx \<and>
      (\<forall>prev (invoker :: ('v, 'req, 'reply, 'cc, 'opt, 's) UnaryInvoker) opts s.
         ClientInterceptor T (ctx\<lparr>mdOutgoing := prev\<rparr>) method req reply cc invoker opts s
           = invoker ctx' method req reply cc opts s)"
proof -
  let ?ctx = "NewOutgoingContext ctx (MD_New [(''authorization'', T)])"
  have a: "\<forall>(invoker :: ('v, 'req, 'reply, 'cc, 'opt, 's) UnaryInvoker) opts s.
         ClientInterceptor T ctx method req reply cc invoker opts s
           = invoker ?ctx method req reply cc opts s"
    using assms by (simp add: Client_nonempty)
  have b: "mdOutgoing ?ctx = Some \<lparr>md = [''authorization'' \<mapsto> [T]], added = []\<rparr>"
    by (simp add: NewOutgoingContext_def MD_New_authorization)
  have c: "\<exists>m. FromOutgoingContext ?ctx = Some m \<and> dom m = {''authorization''}"
    by (simp add: FromOutgoing_New MD_New_authorization)
  have d: "mdIncoming ?ctx = mdIncoming ctx" "ctxValues ?ctx = ctxValues ctx"
    by (simp_all add: NewOutgoingContext_def)
  have e: "\<forall>prev (invoker :: ('v, 'req, 'reply, 'cc, 'opt, 's) UnaryInvoker) opts s.
         ClientInterceptor T (ctx\<lparr>mdOutgoing := prev\<rparr>) method req reply cc invoker opts s
           = invoker ?ctx method req reply cc opts s"
    using assms by (simp add: Client_nonempty NewOutgoingContext_def)
  show ?thesis using a b c d e by (intro exI[of _ ?ctx] conjI)
qed

theorem client_replaces_outgoing_metadata_witness:
  "''tok'' \<noteq> [] \<and>
   ClientInterceptor ''tok''
      \<lparr>mdIncoming = None,
       mdOutgoing = Some \<lparr>md = [''x-trace'' \<mapsto> [''1'']], added = [[''x-user'', ''u'']]\<rparr>,
       ctxValues = ()\<rparr> ''GetStats'' () () ()
      (\<lambda>c meth rq rp cn os n. (None, FromOutgoingContext c))
      ([]::unit list) None
     = (None, Some [''authorization'' \<mapsto> [''tok'']])"
proof -
  have ne: "''tok'' \<noteq> []" by simp
  from client_replaces_outgoing_metadata [
      where ?'opt = unit and ?'s = "MD option",
      OF ne,
      of "\<lparr>mdIncoming = None,
       mdOutgoing = Some \<lparr>md = [''x-trace'' \<mapsto> [''1'']], added = [[''x-user'', ''u'']]\<rparr>,
       ctxValues = ()\<rparr>"
         "''GetStats''" "()" "()" "()"]
  show ?thesis
    by (elim exE conjE) (simp add: FromOutgoingContext_def)
qed


section \<open>Properties of the entities\<close>

subsection \<open>Stats\<close>

text \<open>
  C4. The totals of a Stats are computed from its base and premium parts: the counts add,
  the Tokens add component by component, the Costs add; and a Stats is nothing but its
  seven fields, none of which is a total.
\<close>

theorem stats_totals_from_parts:
  "TotalRequests s = BaseRequests s + PremiumRequests s \<and>
   TotalTokens s = Token_Add (BaseTokens s) (PremiumTokens s) \<and>
   inputTokens (TotalTokens s) = inputTokens (BaseTokens s) + inputTokens (PremiumTokens s) \<and>
   outputTokens (TotalTokens s) = outputTokens (BaseTokens s) + outputTokens (PremiumTokens s) \<and>
   cacheReadTokens (TotalTokens s)
     = cacheReadTokens (BaseTokens s) + cacheReadTokens (PremiumTokens s) \<and>
   cacheCreationTokens (TotalTokens s)
     = cacheCreationTokens (BaseTokens s) + cacheCreationTokens (PremiumTokens s) \<and>
   TotalCost s = Cost_Add (BaseCost s) (PremiumCost s) \<and>
   s = NewStats (BaseRequests s) (PremiumRequests s) (BaseTokens s) (PremiumTokens s)
         (BaseCost s) (PremiumCost s) (Stats_Period s)"
  by (simp add: TotalRequests_def BaseRequests_def PremiumRequests_def TotalTokens_def
      BaseTokens_def PremiumTokens_def TotalCost_def BaseCost_def PremiumCost_def
      Stats_Period_def NewStats_def Token_Add_def NewToken_def)

subsection \<open>Model classification and aggregation\<close>

lemma HasPrefix_iff: "HasPrefix s p \<longleftrightarrow> (\<exists>post. s = p @ post)"
  by (induction s p rule: HasPrefix.induct) auto

lemma Contains_iff: "Contains s sub \<longleftrightarrow> (\<exists>pre post. s = pre @ sub @ post)"
proof (induction s)
  case Nil
  show ?case by (cases sub) auto
next
  case (Cons c cs)
  show ?case
  proof
    assume "Contains (c # cs) sub"
    then consider "HasPrefix (c # cs) sub" | "Contains cs sub" by auto
    then show "\<exists>pre post. c # cs = pre @ sub @ post"
    proof cases
      case 1
      then obtain post where "c # cs = sub @ post" by (auto simp: HasPrefix_iff)
      then have "c # cs = [] @ sub @ post" by simp
      then show ?thesis by blast
    next
      case 2
      then obtain pre post where "cs = pre @ sub @ post" using Cons.IH by auto
      then have "c # cs = (c # pre) @ sub @ post" by simp
      then show ?thesis by blast
    qed
  next
    assume "\<exists>pre post. c # cs = pre @ sub @ post"
    then obtain pre post where eq: "c # cs = pre @ sub @ post" by auto
    show "Contains (c # cs) sub"
    proof (cases pre)
      case Nil
      with eq have "HasPrefix (c # cs) sub" by (auto simp: HasPrefix_iff)
      then show ?thesis by simp
    next
      case (Cons p ps)
      with eq have "cs = ps @ sub @ post" by simp
      then have "Contains cs sub" using Cons.IH by auto
      then show ?thesis by simp
    qed
  qed
qed

lemma Token_Add_assoc: "Token_Add (Token_Add a b) c = Token_Add a (Token_Add b c)"
  by (simp add: Token_Add_def NewToken_def add.assoc)

lemma Token_Add_zero: "Token_Add a (NewToken 0 0 0 0) = a" "Token_Add (NewToken 0 0 0 0) a = a"
  by (simp_all add: Token_Add_def NewToken_def)

lemma sumTokens_Nil: "sumTokens [] = NewToken 0 0 0 0"
  by (simp add: sumTokens_def)

lemma sumTokens_Cons: "sumTokens (t # ts) = Token_Add t (sumTokens ts)"
  by (simp add: sumTokens_def Token_Add_def NewToken_def)

lemma Cost_Add_assoc: "Cost_Add (Cost_Add a b) c = Cost_Add a (Cost_Add b c)"
  by (simp add: Cost_Add_def NewCost_def add.assoc)

lemma Cost_Add_zero: "Cost_Add a (NewCost 0) = a" "Cost_Add (NewCost 0) a = a"
  by (simp_all add: Cost_Add_def NewCost_def)

lemma sumCosts_Nil: "sumCosts [] = NewCost 0"
  by (simp add: sumCosts_def)

lemma sumCosts_Cons: "sumCosts (c # cs) = Cost_Add c (sumCosts cs)"
  by (simp add: sumCosts_def Cost_Add_def NewCost_def)

lemma aggregate_fields:
  "accBaseRequests (aggregate rs acc)
     = accBaseRequests acc + of_nat (length (filter (\<lambda>r. IsBase (model r)) rs))"
  "accPremiumRequests (aggregate rs acc)
     = accPremiumRequests acc + of_nat (length (filter (\<lambda>r. \<not> IsBase (model r)) rs))"
  "accBaseTokens (aggregate rs acc)
     = Token_Add (accBaseTokens acc) (sumTokens (map tokens (filter (\<lambda>r. IsBase (model r)) rs)))"
  "accPremiumTokens (aggregate rs acc)
     = Token_Add (accPremiumTokens acc)
         (sumTokens (map tokens (filter (\<lambda>r. \<not> IsBase (model r)) rs)))"
  "accBaseCost (aggregate rs acc)
     = Cost_Add (accBaseCost acc) (sumCosts (map cost (filter (\<lambda>r. IsBase (model r)) rs)))"
  "accPremiumCost (aggregate rs acc)
     = Cost_Add (accPremiumCost acc)
         (sumCosts (map cost (filter (\<lambda>r. \<not> IsBase (model r)) rs)))"
  by (induction rs arbitrary: acc;
      simp add: sumTokens_Nil sumTokens_Cons sumCosts_Nil sumCosts_Cons
        Token_Add_zero Cost_Add_zero Token_Add_assoc Cost_Add_assoc add.assoc)+

lemma GetStatsByPeriod_partition:
  "GetStatsByPeriod rs p =
     NewStats (of_nat (length (filter (\<lambda>r. IsBase (model r)) rs)))
       (of_nat (length (filter (\<lambda>r. \<not> IsBase (model r)) rs)))
       (sumTokens (map tokens (filter (\<lambda>r. IsBase (model r)) rs)))
       (sumTokens (map tokens (filter (\<lambda>r. \<not> IsBase (model r)) rs)))
       (sumCosts (map cost (filter (\<lambda>r. IsBase (model r)) rs)))
       (sumCosts (map cost (filter (\<lambda>r. \<not> IsBase (model r)) rs)))
       p"
  by (simp add: GetStatsByPeriod_def Let_def aggregate_fields Token_Add_zero Cost_Add_zero)

lemma IsBase_examples:
  "IsBase ''claude-3-haiku-20240307''" "IsBase ''Claude-3-HAIKU''"
  "\<not> IsBase ''claude-3-5-sonnet-20241022''"
  by (simp_all add: IsBase_def ToLower_def isUpperASCII_def)

lemma stats_example:
  "GetStatsByPeriod
     [NewAPIRequest ''daily-base-0'' ts ''claude-3-haiku-20240307''
        (NewToken 200 160 0 0) (NewCost (1/100)) 1000,
      NewAPIRequest ''daily-premium-0'' ts ''claude-3-5-sonnet-20241022''
        (NewToken 666 500 0 0) (NewCost (2/100)) 1000] p
   = NewStats 1 1 (NewToken 200 160 0 0) (NewToken 666 500 0 0)
       (NewCost (1/100)) (NewCost (2/100)) p"
  by (simp add: GetStatsByPeriod_def Let_def NewAPIRequest_def IsBase_examples
      Token_Add_zero Cost_Add_zero)

text \<open>
  C5. A model is base exactly when its lower-cased name has \<open>haiku\<close> inside. The
  aggregation counts and sums the requests with a base model on the base side and all
  others on the premium side. One base request (tokens 200/160/0/0, cost 0.01) and one
  premium request (tokens 666/500/0/0, cost 0.02) give one request on each side and a
  total cost of 0.03.
\<close>

theorem classification_partitions_stats:
  "(IsBase m \<longleftrightarrow> (\<exists>pre post. ToLower m = pre @ ''haiku'' @ post)) \<and>
   IsBase ''claude-3-haiku-20240307'' \<and> IsBase ''Claude-3-HAIKU'' \<and>
   \<not> IsBase ''claude-3-5-sonnet-20241022'' \<and>
   GetStatsByPeriod rs p =
     NewStats (of_nat (length (filter (\<lambda>r. IsBase (model r)) rs)))
       (of_nat (length (filter (\<lambda>r. \<not> IsBase (model r)) rs)))
       (sumTokens (map tokens (filter (\<lambda>r. IsBase (model r)) rs)))
       (sumTokens (map tokens (filter (\<lambda>r. \<not> IsBase (model r)) rs)))
       (sumCosts (map cost (filter (\<lambda>r. IsBase (model r)) rs)))
       (sumCosts (map cost (filter (\<lambda>r. \<not> IsBase (model r)) rs)))
       p \<and>
   BaseRequests (GetStatsByPeriod
     [NewAPIRequest ''daily-base-0'' ts ''claude-3-haiku-20240307''
        (NewToken 200 160 0 0) (NewCost (1/100)) 1000,
      NewAPIRequest ''daily-premium-0'' ts ''claude-3-5-sonnet-20241022''
        (NewToken 666 500 0 0) (NewCost (2/100)) 1000] p) = 1 \<and>
   PremiumRequests (GetStatsByPeriod
     [NewAPIRequest ''daily-base-0'' ts ''claude-3-haiku-20240307''
        (NewToken 200 160 0 0) (NewCost (1/100)) 1000,
      NewAPIRequest ''daily-premium-0'' ts ''claude-3-5-sonnet-20241022''
        (NewToken 666 500 0 0) (NewCost (2/100)) 1000] p) = 1 \<and>
   TotalCost (GetStatsByPeriod
     [NewAPIRequest ''daily-base-0'' ts ''claude-3-haiku-20240307''
        (NewToken 200 160 0 0) (NewCost (1/100)) 1000,
      NewAPIRequest ''daily-premium-0'' ts ''claude-3-5-sonnet-20241022''
        (NewToken 666 500 0 0) (NewCost (2/100)) 1000] p) = NewCost (3/100)"
proof (intro conjI)
  show "IsBase m \<longleftrightarrow> (\<exists>pre post. ToLower m = pre @ ''haiku'' @ post)"
    by (simp add: IsBase_def Contains_iff)
  show "IsBase ''claude-3-haiku-20240307''" "IsBase ''Claude-3-HAIKU''"
    "\<not> IsBase ''claude-3-5-sonnet-20241022''"
    by (rule IsBase_examples)+
  show "GetStatsByPeriod rs p =
     NewStats (of_nat (length (filter (\<lambda>r. IsBase (model r)) rs)))
       (of_nat (length (filter (\<lambda>r. \<not> IsBase (model r)) rs)))
       (sumTokens (map tokens (filter (\<lambda>r. IsBase (model r)) rs)))
       (sumTokens (map tokens (filter (\<lambda>r. \<not> IsBase (model r)) rs)))
       (sumCosts (map cost (filter (\<lambda>r. IsBase (model r)) rs)))
       (sumCosts (map cost (filter (\<lambda>r. \<not> IsBase (model r)) rs)))
       p"
    by (rule GetStatsByPeriod_partition)
qed (simp_all only: stats_example,
    simp_all add: BaseRequests_def PremiumRequests_def TotalCost_def
      NewStats_def Cost_Add_def NewCost_def)

subsection \<open>Block windows\<close>

lemma floor_div_bounds:
  fixes D e :: int
  assumes "0 < D"
  shows "(e div D) * D \<le> e" and "e < (e div D + 1) * D"
proof -
  have eq: "e = (e div D) * D + e mod D" by simp
  have "0 \<le> e mod D" and "e mod D < D" using assms by simp_all
  with eq show "(e div D) * D \<le> e" by linarith
  have "(e div D + 1) * D = (e div D) * D + D" by (simp add: algebra_simps)
  with eq \<open>e mod D < D\<close> show "e < (e div D + 1) * D" by linarith
qed

lemma floor_div_least:
  fixes D e j :: int
  assumes "0 < D" and "e < (j + 1) * D"
  shows "e div D \<le> j"
proof (rule ccontr)
  assume "\<not> e div D \<le> j"
  then have "j + 1 \<le> e div D" by simp
  then have "(j + 1) * D \<le> (e div D) * D" using assms(1) by (simp add: mult_right_mono)
  also have "\<dots> \<le> e" using assms(1) by (rule floor_div_bounds)
  finally show False using assms(2) by simp
qed

lemma TimeBlockDuration_pos: "0 < TimeBlockDuration"
  by (simp add: TimeBlockDuration_def Hour_def)

lemma NextBlock_in_window:
  "StartAt b \<le> now \<Longrightarrow> now < EndAt b \<Longrightarrow> NextBlock b now = b"
  by (simp add: NextBlock_def StartAt_def)

lemma NextBlock_before_start:
  assumes "now < StartAt b"
  shows "NextBlock b now = b"
proof -
  have "(now - startAt b) div TimeBlockDuration < 0"
    using assms TimeBlockDuration_pos by (simp add: StartAt_def pos_imp_zdiv_neg_iff)
  then show ?thesis using assms by (simp add: NextBlock_def StartAt_def Let_def)
qed

lemma NextBlock_after_end:
  assumes "EndAt b \<le> now"
  shows "StartAt (NextBlock b now)
           = StartAt b + ((now - StartAt b) div TimeBlockDuration) * TimeBlockDuration"
    and "1 \<le> (now - StartAt b) div TimeBlockDuration"
proof -
  have "TimeBlockDuration \<le> now - StartAt b"
    using assms by (simp add: EndAt_def StartAt_def)
  then have "TimeBlockDuration div TimeBlockDuration \<le> (now - StartAt b) div TimeBlockDuration"
    using TimeBlockDuration_pos by (rule zdiv_mono1)
  then show k1: "1 \<le> (now - StartAt b) div TimeBlockDuration"
    using TimeBlockDuration_pos by simp
  then show "StartAt (NextBlock b now)
           = StartAt b + ((now - StartAt b) div TimeBlockDuration) * TimeBlockDuration"
    using assms by (simp add: NextBlock_def StartAt_def Let_def)
qed

lemma NextBlock_least_k:
  "\<exists>k. 0 \<le> k \<and>
       StartAt (NextBlock b now) = StartAt b + k * TimeBlockDuration \<and>
       now < StartAt b + (k + 1) * TimeBlockDuration \<and>
       (\<forall>j. 0 \<le> j \<and> now < StartAt b + (j + 1) * TimeBlockDuration \<longrightarrow> k \<le> j)"
proof (cases "now < EndAt b")
  case True
  then have same: "NextBlock b now = b"
    using NextBlock_in_window [of b now] NextBlock_before_start [of now b] by fastforce
  have "0 \<le> (0::int) \<and>
       StartAt (NextBlock b now) = StartAt b + 0 * TimeBlockDuration \<and>
       now < StartAt b + (0 + 1) * TimeBlockDuration \<and>
       (\<forall>j. 0 \<le> j \<and> now < StartAt b + (j + 1) * TimeBlockDuration \<longrightarrow> 0 \<le> j)"
    using True same by (simp add: EndAt_def StartAt_def)
  then show ?thesis by (rule exI)
next
  case False
  let ?e = "now - StartAt b"
  let ?k = "?e div TimeBlockDuration"
  from False have ge: "EndAt b \<le> now" by simp
  have k1: "1 \<le> ?k" and st: "StartAt (NextBlock b now) = StartAt b + ?k * TimeBlockDuration"
    using NextBlock_after_end [OF ge] by simp_all
  have up: "?e < (?k + 1) * TimeBlockDuration"
    using TimeBlockDuration_pos by (rule floor_div_bounds)
  have least: "\<forall>j. 0 \<le> j \<and> now < StartAt b + (j + 1) * TimeBlockDuration \<longrightarrow> ?k \<le> j"
  proof (intro allI impI)
    fix j assume "0 \<le> j \<and> now < StartAt b + (j + 1) * TimeBlockDuration"
    then have "?e < (j + 1) * TimeBlockDuration" by simp
    with TimeBlockDuration_pos show "?k \<le> j" by (rule floor_div_least)
  qed
  have "0 \<le> ?k \<and>
       StartAt (NextBlock b now) = StartAt b + ?k * TimeBlockDuration \<and>
       now < StartAt b + (?k + 1) * TimeBlockDuration \<and>
       (\<forall>j. 0 \<le> j \<and> now < StartAt b + (j + 1) * TimeBlockDuration \<longrightarrow> ?k \<le> j)"
    using k1 st up least by simp
  then show ?thesis by (rule exI)
qed

lemma NextBlock_contains_now:
  assumes "StartAt b \<le> now"
  shows "StartAt (NextBlock b now) \<le> now \<and> now < EndAt (NextBlock b now)"
proof (cases "now < EndAt b")
  case True
  with assms show ?thesis by (simp add: NextBlock_in_window)
next
  case False
  then have ge: "EndAt b \<le> now" by simp
  let ?k = "(now - StartAt b) div TimeBlockDuration"
  have st: "StartAt (NextBlock b now) = StartAt b + ?k * TimeBlockDuration"
    using NextBlock_after_end [OF ge] by simp
  have lo: "?k * TimeBlockDuration \<le> now - StartAt b"
    using TimeBlockDuration_pos by (rule floor_div_bounds)
  have up: "now - StartAt b < (?k + 1) * TimeBlockDuration"
    using TimeBlockDuration_pos by (rule floor_div_bounds)
  have en: "EndAt (NextBlock b now) = StartAt (NextBlock b now) + TimeBlockDuration"
    by (simp add: EndAt_def StartAt_def)
  show ?thesis using st lo up en by (simp add: algebra_simps)
qed

lemma NextBlock_boundary: "StartAt (NextBlock b (EndAt b)) = EndAt b"
proof -
  have "StartAt (NextBlock b (EndAt b))
          = StartAt b + ((EndAt b - StartAt b) div TimeBlockDuration) * TimeBlockDuration"
    by (rule NextBlock_after_end) simp
  moreover have "EndAt b - StartAt b = TimeBlockDuration" by (simp add: EndAt_def StartAt_def)
  ultimately show ?thesis using TimeBlockDuration_pos by (simp add: EndAt_def StartAt_def)
qed

lemma NextBlock_tests:
  "StartAt (NextBlock (NewBlock (t0 + 10 * Hour)) (t0 + 12 * Hour + Hour div 2)) = t0 + 10 * Hour"
  "EndAt (NextBlock (NewBlock (t0 + 10 * Hour)) (t0 + 12 * Hour + Hour div 2)) = t0 + 15 * Hour"
  "StartAt (NextBlock (NewBlock (t0 + 10 * Hour)) (t0 + 15 * Hour)) = t0 + 15 * Hour"
  "EndAt (NextBlock (NewBlock (t0 + 10 * Hour)) (t0 + 15 * Hour)) = t0 + 20 * Hour"
  "StartAt (NextBlock (NewBlock (t0 + 10 * Hour)) (t0 + 16 * Hour + Hour div 2)) = t0 + 15 * Hour"
  "EndAt (NextBlock (NewBlock (t0 + 10 * Hour)) (t0 + 16 * Hour + Hour div 2)) = t0 + 20 * Hour"
  "StartAt (NextBlock (NewBlock (t0 + 10 * Hour)) (t0 + 32 * Hour)) = t0 + 30 * Hour"
  "EndAt (NextBlock (NewBlock (t0 + 10 * Hour)) (t0 + 32 * Hour)) = t0 + 35 * Hour"
  by (simp_all add: NextBlock_def NewBlock_def StartAt_def EndAt_def TimeBlockDuration_def
      Hour_def Let_def)

text \<open>
  C1. \<open>NextBlock\<close> returns the block itself when \<open>now\<close> is in its window. In every case the
  block returned starts \<open>k\<close> durations after \<open>startAt\<close>, where \<open>k\<close> is the smallest
  non-negative integer with \<open>now < startAt + (k + 1) * duration\<close>. The end of the window is
  the start of the next block, a \<open>now\<close> that is not before \<open>startAt\<close> lies in the window of
  the block returned, however many durations ahead it is, and from a block at 10:00 a
  \<open>now\<close> at 08:00 of the next day gives the block from 06:00 to 11:00 of that day.
\<close>

theorem NextBlock_half_open_closed_form:
  "(StartAt b \<le> now \<and> now < EndAt b \<longrightarrow> NextBlock b now = b) \<and>
   (\<exists>k. 0 \<le> k \<and>
       StartAt (NextBlock b now) = StartAt b + k * TimeBlockDuration \<and>
       now < StartAt b + (k + 1) * TimeBlockDuration \<and>
       (\<forall>j. 0 \<le> j \<and> now < StartAt b + (j + 1) * TimeBlockDuration \<longrightarrow> k \<le> j)) \<and>
   StartAt (NextBlock b (EndAt b)) = EndAt b \<and>
   (StartAt b \<le> now \<longrightarrow>
      StartAt (NextBlock b now) \<le> now \<and> now < EndAt (NextBlock b now)) \<and>
   StartAt (NextBlock (NewBlock (t0 + 10 * Hour)) (t0 + 32 * Hour)) = t0 + 30 * Hour \<and>
   EndAt (NextBlock (NewBlock (t0 + 10 * Hour)) (t0 + 32 * Hour)) = t0 + 35 * Hour"
proof (intro conjI impI)
  show "NextBlock b now = b" if "StartAt b \<le> now \<and> now < EndAt b"
    using that by (simp add: NextBlock_in_window)
  show "\<exists>k. 0 \<le> k \<and>
       StartAt (NextBlock b now) = StartAt b + k * TimeBlockDuration \<and>
       now < StartAt b + (k + 1) * TimeBlockDuration \<and>
       (\<forall>j. 0 \<le> j \<and> now < StartAt b + (j + 1) * TimeBlockDuration \<longrightarrow> k \<le> j)"
    by (rule NextBlock_least_k)
  show "StartAt (NextBlock b (EndAt b)) = EndAt b"
    by (rule NextBlock_boundary)
  show "StartAt (NextBlock b now) \<le> now" if "StartAt b \<le> now"
    using NextBlock_contains_now [OF that] by simp
  show "now < EndAt (NextBlock b now)" if "StartAt b \<le> now"
    using NextBlock_contains_now [OF that] by simp
  show "StartAt (NextBlock (NewBlock (t0 + 10 * Hour)) (t0 + 32 * Hour)) = t0 + 30 * Hour"
    by (rule NextBlock_tests)
  show "EndAt (NextBlock (NewBlock (t0 + 10 * Hour)) (t0 + 32 * Hour)) = t0 + 35 * Hour"
    by (rule NextBlock_tests)
qed

theorem NextBlock_half_open_closed_form_witness:
  "NextBlock (NewBlock 1735725600000000000) 1735734600000000000
     = NewBlock 1735725600000000000 \<and>
   StartAt (NextBlock (NewBlock 1735725600000000000) 1735743600000000000)
     = 1735743600000000000 \<and>
   StartAt (NextBlock (NewBlock 1735725600000000000) 1735804800000000000)
     = 1735797600000000000 \<and>
   EndAt (NextBlock (NewBlock 1735725600000000000) 1735804800000000000)
     = 1735815600000000000"
  using NextBlock_half_open_closed_form [of "NewBlock 1735725600000000000"
      1735734600000000000 1735689600000000000]
  by (simp add: StartAt_def EndAt_def NewBlock_def TimeBlockDuration_def Hour_def)

subsection \<open>Progress and plan usage\<close>

lemma usage_percentage_tests:
  "CalculateUsagePercentage (NewPlan ''max'' (NewCost 100)) (NewCost 155) = 155"
  "CalculateUsagePercentage (NewPlan ''max20'' (NewCost 200)) (NewCost 155) = 77"
  "CalculateUsagePercentage (NewPlan ''pro'' (NewCost 20)) (NewCost 155) = 775"
  "CalculateUsagePercentage (NewPlan ''max'' (NewCost 100)) (NewCost 330) = 330"
  "CalculateUsagePercentage (NewPlan ''pro'' (NewCost 20)) (NewCost 330) = 1650"
  "CalculateUsagePercentage (NewPlan ''unset'' (NewCost 0)) (NewCost 155) = 0"
  "CalculateDailyUsagePercentage (NewPlan ''pro'' (NewCost 20)) (NewCost 0) 30 = 0"
  "CalculateDailyUsagePercentage (NewPlan ''unset'' (NewCost 0)) (NewCost 15) 30 = 0"
  "CalculateDailyUsagePercentage (NewPlan ''pro'' (NewCost 20)) (NewCost 15) 31 = 2325"
  by code_simp+

lemma progress_exceeds:
  assumes "HasLimit b"
  shows "100 < CalculateProgress b u \<longleftrightarrow> TokenLimit b < u"
proof -
  from assms have pos: "(0::rat) < of_int (tokenLimit b)" by (simp add: HasLimit_def)
  have "100 < CalculateProgress b u \<longleftrightarrow> (of_int (tokenLimit b) :: rat) * 100 < of_int u * 100"
    using pos by (simp add: CalculateProgress_def pos_less_divide_eq mult.commute)
  also have "\<dots> \<longleftrightarrow> (of_int (tokenLimit b) :: rat) < of_int u" by simp
  also have "\<dots> \<longleftrightarrow> tokenLimit b < u" by (simp only: of_int_less_iff)
  finally show ?thesis by (simp add: TokenLimit_def)
qed

lemma render_clamped:
  "renderBlockProgress_percentage b u \<le> 100"
  "renderBlockProgress_percentage b u = min 100 (CalculateProgress b u)"
  by (simp_all add: renderBlockProgress_percentage_def Let_def min_def)

lemma progress_double:
  assumes "HasLimit b"
  shows "CalculateProgress b (2 * TokenLimit b) = 200"
  using assms by (simp add: CalculateProgress_def HasLimit_def TokenLimit_def)

text \<open>
  C6. With a limit configured, \<open>CalculateProgress\<close> is \<open>tokensUsed / limit * 100\<close>; it is
  above 100 exactly when more tokens are used than the limit allows, as with twice the
  limit, which gives 200. The percentage of the rendered bar is that value cut at 100.
  \<open>CalculateProgress\<close> itself is not cut, and the percentage a format query prints is not
  either: a cost of 155 on a plan priced 20 prints 775.
\<close>

theorem progress_raw_and_clamped:
  assumes "HasLimit b"
  shows
   "CalculateProgress b tokensUsed = of_int tokensUsed / of_int (TokenLimit b) * 100 \<and>
    (100 < CalculateProgress b tokensUsed \<longleftrightarrow> TokenLimit b < tokensUsed) \<and>
    CalculateProgress b (2 * TokenLimit b) = 200 \<and>
    renderBlockProgress_percentage b tokensUsed \<le> 100 \<and>
    renderBlockProgress_percentage b tokensUsed = min 100 (CalculateProgress b tokensUsed) \<and>
    renderBlockProgress_percentage b (2 * TokenLimit b) = 100 \<and>
    CalculateUsagePercentage (NewPlan ''pro'' (NewCost 20)) (NewCost 155) = 775"
  using progress_exceeds [OF assms, of tokensUsed] progress_double [OF assms]
    render_clamped [of b tokensUsed] render_clamped(2) [of b "2 * TokenLimit b"]
    usage_percentage_tests(3)
  by (simp add: CalculateProgress_def TokenLimit_def)

theorem progress_raw_and_clamped_witness:
  "HasLimit \<lparr>startAt = 0, tokenLimit = 7000\<rparr> \<and>
   CalculateProgress \<lparr>startAt = 0, tokenLimit = 7000\<rparr> 54250 = 775 \<and>
   renderBlockProgress_percentage \<lparr>startAt = 0, tokenLimit = 7000\<rparr> 54250 = 100 \<and>
   CalculateProgress \<lparr>startAt = 0, tokenLimit = 7000\<rparr> 5600 = 80 \<and>
   renderBlockProgress_percentage \<lparr>startAt = 0, tokenLimit = 7000\<rparr> 5600 = 80"
proof -
  have h: "HasLimit \<lparr>startAt = 0, tokenLimit = 7000\<rparr>" by (simp add: HasLimit_def)
  show ?thesis
    using h progress_raw_and_clamped [OF h, of 54250] progress_raw_and_clamped [OF h, of 5600]
    by (simp add: TokenLimit_def)
qed

text \<open>
  C7. The plan \<open>unset\<close> is built with the price zero, and every usage percentage against a
  plan named \<open>unset\<close> is zero, the monthly and the daily one, whatever the cost of the
  period and the number of days.
\<close>

theorem unset_plan_zero_usage:
  "name (NewPlan ''unset'' (NewCost 0)) = ''unset'' \<and>
   amount (price (NewPlan ''unset'' (NewCost 0))) = 0 \<and>
   CalculateUsagePercentage (NewPlan ''unset'' planPrice) monthlyCost = 0 \<and>
   CalculateDailyUsagePercentage (NewPlan ''unset'' planPrice) dailyCost daysInMonth = 0"
  by (simp add: CalculateUsagePercentage_def CalculateDailyUsagePercentage_def
      NewPlan_def NewCost_def)

theorem unset_plan_zero_usage_witness:
  "CalculateUsagePercentage (NewPlan ''unset'' (NewCost 0)) (NewCost 155) = 0 \<and>
   CalculateDailyUsagePercentage (NewPlan ''unset'' (NewCost 0)) (NewCost 15) 31 = 0"
  using unset_plan_zero_usage [of "NewCost 0" "NewCost 155" "NewCost 15" 31]
  by simp

end
